theory Spec2Isabelle
  imports Complex_Main
begin

section \<open>Tables\<close>

text \<open>
  The program of \<^verbatim>\<open>main.py\<close> works on one pandas \<^verbatim>\<open>DataFrame\<close>. A frame is a list of
  named columns together with the row labels (the frame's index); a column has a
  dtype and one cell per row. A cell is missing, a number, a piece of text or a
  timestamp. Numbers are idealised as reals (the source computes in binary64);
  missing and not-a-number are one value, as they are in a pandas float column.
\<close>

datatype cell = NA | Num real | Str string | Date int

datatype dtype = Numeric | Datetime | Object

record column =
  dtype :: dtype
  cells :: "cell list"

record frame =
  index :: "nat list"
  columns :: "(string \<times> column) list"

datatype error = KeyError string

text \<open>
  Three routines of the library read or write text and are not part of the
  repository: the numeric parser behind \<^verbatim>\<open>pd.to_numeric\<close>, the date parser behind
  \<^verbatim>\<open>pd.to_datetime\<close> and the formatting of a number or timestamp by \<^verbatim>\<open>astype(str)\<close>.
  They are parameters of the model; \<open>None\<close> is a value the parser rejects.
\<close>

record pandas =
  number_of :: "cell \<Rightarrow> real option"
  datetime_of :: "cell \<Rightarrow> int option"
  text_of :: "cell \<Rightarrow> string"

definition names :: "frame \<Rightarrow> string list" where
  "names df = map fst (columns df)"

text \<open>\<^verbatim>\<open>df[k]\<close>: raises \<^verbatim>\<open>KeyError\<close> when there is no column \<open>k\<close>.\<close>

definition getitem :: "frame \<Rightarrow> string \<Rightarrow> error + column" where
  "getitem df k = (case map_of (columns df) k of None \<Rightarrow> Inl (KeyError k) | Some c \<Rightarrow> Inr c)"

text \<open>\<^verbatim>\<open>df[k] = c\<close>: replaces the column \<open>k\<close>, or appends it when there is none.\<close>

definition setitem :: "frame \<Rightarrow> string \<Rightarrow> column \<Rightarrow> frame" where
  "setitem df k c =
     (if k \<in> set (names df)
      then df\<lparr>columns := map (\<lambda>(n, old). if n = k then (n, c) else (n, old)) (columns df)\<rparr>
      else df\<lparr>columns := columns df @ [(k, c)]\<rparr>)"

definition and_then :: "error + 'a \<Rightarrow> ('a \<Rightarrow> error + 'b) \<Rightarrow> error + 'b" where
  "and_then r f = (case r of Inl e \<Rightarrow> Inl e | Inr x \<Rightarrow> f x)"

subsection \<open>Boolean masks\<close>

text \<open>
  A comparison of a column with a number gives one boolean per row; a comparison
  with a missing or non-numeric cell is false.
\<close>

definition lt_mask :: "column \<Rightarrow> real \<Rightarrow> bool list" where
  "lt_mask c x = map (\<lambda>v. case v of Num r \<Rightarrow> r < x | _ \<Rightarrow> False) (cells c)"

definition gt_mask :: "column \<Rightarrow> real \<Rightarrow> bool list" where
  "gt_mask c x = map (\<lambda>v. case v of Num r \<Rightarrow> r > x | _ \<Rightarrow> False) (cells c)"

definition or_mask :: "bool list \<Rightarrow> bool list \<Rightarrow> bool list" where
  "or_mask a b = map2 (\<or>) a b"

definition not_mask :: "bool list \<Rightarrow> bool list" where
  "not_mask a = map Not a"

text \<open>\<^verbatim>\<open>s.isin(vs)\<close>.\<close>

definition isin :: "column \<Rightarrow> string list \<Rightarrow> bool list" where
  "isin c vs = map (\<lambda>v. case v of Str s \<Rightarrow> s \<in> set vs | _ \<Rightarrow> False) (cells c)"

text \<open>\<^verbatim>\<open>s.str.len().between(lo, hi)\<close>: the length of a missing cell is missing, and is not between.\<close>

definition len_between :: "column \<Rightarrow> nat \<Rightarrow> nat \<Rightarrow> bool list" where
  "len_between c lo hi =
     map (\<lambda>v. case v of Str s \<Rightarrow> lo \<le> length s \<and> length s \<le> hi | _ \<Rightarrow> False) (cells c)"

text \<open>\<^verbatim>\<open>s.str.contains(ch, na=False)\<close> for a pattern of one literal character.\<close>

definition str_contains :: "column \<Rightarrow> char \<Rightarrow> bool list" where
  "str_contains c ch = map (\<lambda>v. case v of Str s \<Rightarrow> ch \<in> set s | _ \<Rightarrow> False) (cells c)"

text \<open>The cells of a column where the mask is true become missing; the dtype stays.\<close>

definition mask_na :: "bool list \<Rightarrow> column \<Rightarrow> column" where
  "mask_na bs c = c\<lparr>cells := map2 (\<lambda>m v. if m then NA else v) bs (cells c)\<rparr>"

text \<open>
  \<^verbatim>\<open>df.loc[mask, k] = pd.NA\<close>. When there is no column \<open>k\<close>, pandas adds one, missing in
  every row.
\<close>

definition loc_set_na :: "frame \<Rightarrow> bool list \<Rightarrow> string \<Rightarrow> frame" where
  "loc_set_na df bs k =
     (if k \<in> set (names df)
      then df\<lparr>columns := map (\<lambda>(n, c). if n = k then (n, mask_na bs c) else (n, c)) (columns df)\<rparr>
      else df\<lparr>columns := columns df @
             [(k, \<lparr>dtype = Object, cells = replicate (length (index df)) NA\<rparr>)]\<rparr>)"

subsection \<open>Conversions\<close>

text \<open>
  \<^verbatim>\<open>pd.to_numeric(s, errors="coerce")\<close>: a number stays, a missing cell stays missing, any
  other cell goes through the parser and is missing when the parser rejects it.
\<close>

definition numeric_cell :: "pandas \<Rightarrow> cell \<Rightarrow> cell" where
  "numeric_cell L v =
     (case v of NA \<Rightarrow> NA | Num r \<Rightarrow> Num r
      | _ \<Rightarrow> (case number_of L v of None \<Rightarrow> NA | Some r \<Rightarrow> Num r))"

definition to_numeric :: "pandas \<Rightarrow> column \<Rightarrow> column" where
  "to_numeric L c = \<lparr>dtype = Numeric, cells = map (numeric_cell L) (cells c)\<rparr>"

text \<open>\<^verbatim>\<open>pd.to_datetime(s, format="mixed", dayfirst=True, errors="coerce")\<close>.\<close>

definition datetime_cell :: "pandas \<Rightarrow> cell \<Rightarrow> cell" where
  "datetime_cell L v =
     (case v of NA \<Rightarrow> NA | Date d \<Rightarrow> Date d
      | _ \<Rightarrow> (case datetime_of L v of None \<Rightarrow> NA | Some d \<Rightarrow> Date d))"

definition to_datetime :: "pandas \<Rightarrow> column \<Rightarrow> column" where
  "to_datetime L c = \<lparr>dtype = Datetime, cells = map (datetime_cell L) (cells c)\<rparr>"

text \<open>\<^verbatim>\<open>s.astype(str)\<close>: every cell becomes text; a missing cell becomes the text \<^verbatim>\<open>nan\<close>.\<close>

definition str_cell :: "pandas \<Rightarrow> cell \<Rightarrow> string" where
  "str_cell L v = (case v of Str s \<Rightarrow> s | NA \<Rightarrow> ''nan'' | _ \<Rightarrow> text_of L v)"

definition astype_str :: "pandas \<Rightarrow> column \<Rightarrow> column" where
  "astype_str L c = \<lparr>dtype = Object, cells = map (\<lambda>v. Str (str_cell L v)) (cells c)\<rparr>"

subsection \<open>String methods\<close>

text \<open>Text is ASCII here: white space and letters are those of ASCII.\<close>

definition is_space :: "char \<Rightarrow> bool" where
  "is_space ch = (ch \<in> set [CHR '' '', CHR 0x09, CHR 0x0A, CHR 0x0B, CHR 0x0C, CHR 0x0D,
                             CHR 0x1C, CHR 0x1D, CHR 0x1E, CHR 0x1F])"

definition is_digit :: "char \<Rightarrow> bool" where
  "is_digit ch = (ch \<in> set ''0123456789'')"

definition lower_char :: "char \<Rightarrow> char" where
  "lower_char ch =
     (case map_of (zip ''ABCDEFGHIJKLMNOPQRSTUVWXYZ'' ''abcdefghijklmnopqrstuvwxyz'') ch of
        Some l \<Rightarrow> l | None \<Rightarrow> ch)"

definition strip :: "string \<Rightarrow> string" where
  "strip s = rev (dropWhile is_space (rev (dropWhile is_space s)))"

definition lower :: "string \<Rightarrow> string" where
  "lower s = map lower_char s"

text \<open>A string method of \<^verbatim>\<open>s.str\<close> applies to the text cells and leaves the others.\<close>

definition str_map :: "(string \<Rightarrow> string) \<Rightarrow> column \<Rightarrow> column" where
  "str_map f c = c\<lparr>cells := map (\<lambda>v. case v of Str s \<Rightarrow> Str (f s) | _ \<Rightarrow> v) (cells c)\<rparr>"

text \<open>\<^verbatim>\<open>s.str.replace(r"\D", "", regex=True)\<close>.\<close>

definition remove_non_digits :: "string \<Rightarrow> string" where
  "remove_non_digits s = filter is_digit s"

text \<open>\<^verbatim>\<open>s.replace({...})\<close>: a cell equal to a key becomes the key's value.\<close>

definition replace_values :: "(string \<times> string) list \<Rightarrow> column \<Rightarrow> column" where
  "replace_values tab c =
     c\<lparr>cells := map (\<lambda>v. case v of
                            Str s \<Rightarrow> (case map_of tab s of Some t \<Rightarrow> Str t | None \<Rightarrow> v)
                          | _ \<Rightarrow> v) (cells c)\<rparr>"

subsection \<open>Statistics of a column\<close>

text \<open>The numbers of a column, in row order; missing cells are skipped.\<close>

definition valid :: "cell list \<Rightarrow> real list" where
  "valid vs = concat (map (\<lambda>v. case v of Num r \<Rightarrow> [r] | _ \<Rightarrow> []) vs)"

text \<open>
  \<^verbatim>\<open>s.median()\<close>: the middle of the sorted numbers, the mean of the two middle ones
  when their count is even, not-a-number (\<open>None\<close>) when there is none.
\<close>

definition median_of :: "real list \<Rightarrow> real option" where
  "median_of xs =
     (let s = sort xs; n = length s in
      if n = 0 then None
      else if odd n then Some (s ! (n div 2))
      else Some ((s ! (n div 2 - 1) + s ! (n div 2)) / 2))"

definition median :: "column \<Rightarrow> real option" where
  "median c = median_of (valid (cells c))"

text \<open>\<^verbatim>\<open>s.fillna(m)\<close>: filling with not-a-number changes nothing.\<close>

definition fillna :: "real option \<Rightarrow> column \<Rightarrow> column" where
  "fillna m c =
     (case m of None \<Rightarrow> c
      | Some r \<Rightarrow> c\<lparr>cells := map (\<lambda>v. if v = NA then Num r else v) (cells c)\<rparr>)"

subsection \<open>Rows\<close>

definition row :: "frame \<Rightarrow> nat \<Rightarrow> cell list" where
  "row df i = map (\<lambda>(n, c). cells c ! i) (columns df)"

definition rows :: "frame \<Rightarrow> cell list list" where
  "rows df = map (row df) [0..<length (index df)]"

text \<open>\<^verbatim>\<open>df.duplicated()\<close>: a row is a duplicate when an earlier row has the same cells.\<close>

fun duplicated_from :: "'a list \<Rightarrow> 'a list \<Rightarrow> bool list" where
  "duplicated_from seen [] = []"
| "duplicated_from seen (r # rs) = (r \<in> set seen) # duplicated_from (r # seen) rs"

definition duplicated :: "frame \<Rightarrow> bool list" where
  "duplicated df = duplicated_from [] (rows df)"

text \<open>\<^verbatim>\<open>df[mask]\<close>: the rows where the mask is true, with their labels.\<close>

definition pick :: "bool list \<Rightarrow> 'a list \<Rightarrow> 'a list" where
  "pick bs xs = map snd (filter fst (zip bs xs))"

definition select :: "frame \<Rightarrow> bool list \<Rightarrow> frame" where
  "select df bs =
     \<lparr>index = pick bs (index df),
      columns = map (\<lambda>(n, c). (n, c\<lparr>cells := pick bs (cells c)\<rparr>)) (columns df)\<rparr>"

definition drop_duplicates :: "frame \<Rightarrow> frame" where
  "drop_duplicates df = select df (not_mask (duplicated df))"

text \<open>
  A frame as the loader gives it: every column has one cell per row, no two
  columns share a name, no two rows share a label, and there is a column.
\<close>

definition wf_frame :: "frame \<Rightarrow> bool" where
  "wf_frame df =
     (columns df \<noteq> [] \<and> distinct (names df) \<and> distinct (index df) \<and>
      list_all (\<lambda>(n, c). length (cells c) = length (index df)) (columns df))"

section \<open>Cleaning\<close>

definition clean_visit_date :: "pandas \<Rightarrow> frame \<Rightarrow> error + frame" where
  "clean_visit_date L df =
     (if ''Visit Date'' \<in> set (names df)
      then and_then (getitem df ''Visit Date'')
             (\<lambda>c. Inr (setitem df ''Visit Date'' (to_datetime L c)))
      else Inr df)"

definition clean_age :: "pandas \<Rightarrow> frame \<Rightarrow> error + frame" where
  "clean_age L df =
     (if ''Age'' \<in> set (names df)
      then and_then (getitem df ''Age'') (\<lambda>c.
             let df1 = setitem df ''Age'' (to_numeric L c) in
             and_then (getitem df1 ''Age'') (\<lambda>a.
               Inr (loc_set_na df1 (or_mask (lt_mask a 0) (gt_mask a 120)) ''Age'')))
      else Inr df)"

definition clean_gender :: "pandas \<Rightarrow> frame \<Rightarrow> error + frame" where
  "clean_gender L df =
     (if ''Gender'' \<in> set (names df)
      then and_then (getitem df ''Gender'') (\<lambda>c.
             let df1 = setitem df ''Gender'' (str_map lower (str_map strip (astype_str L c))) in
             and_then (getitem df1 ''Gender'') (\<lambda>g.
               let df2 = setitem df1 ''Gender''
                           (replace_values [(''m'', ''male''), (''f'', ''female'')] g) in
               and_then (getitem df2 ''Gender'') (\<lambda>g2.
                 Inr (loc_set_na df2 (not_mask (isin g2 [''male'', ''female''])) ''Gender''))))
      else Inr df)"

definition clean_phone :: "pandas \<Rightarrow> frame \<Rightarrow> error + frame" where
  "clean_phone L df =
     (if ''Phone Number'' \<in> set (names df)
      then and_then (getitem df ''Phone Number'') (\<lambda>c.
             let df1 = setitem df ''Phone Number'' (str_map remove_non_digits (astype_str L c)) in
             and_then (getitem df1 ''Phone Number'') (\<lambda>p.
               Inr (loc_set_na df1 (not_mask (len_between p 7 15)) ''Phone Number'')))
      else Inr df)"

definition clean_email :: "pandas \<Rightarrow> frame \<Rightarrow> error + frame" where
  "clean_email L df =
     (if ''Email'' \<in> set (names df)
      then and_then (getitem df ''Email'') (\<lambda>c.
             Inr (loc_set_na df (not_mask (str_contains (astype_str L c) CHR ''@'')) ''Email''))
      else Inr df)"

definition clean_cholesterol :: "pandas \<Rightarrow> frame \<Rightarrow> error + frame" where
  "clean_cholesterol L df =
     (if ''Cholesterol'' \<in> set (names df)
      then and_then (getitem df ''Cholesterol'') (\<lambda>c.
             let df1 = setitem df ''Cholesterol'' (to_numeric L c) in
             and_then (getitem df1 ''Cholesterol'') (\<lambda>a.
               let df2 = loc_set_na df1 (or_mask (lt_mask a 50) (gt_mask a 400)) ''Cholesterol'' in
               and_then (getitem df2 ''Cholesterol'') (\<lambda>b.
                 Inr (setitem df2 ''Cholesterol'' (fillna (median b) b)))))
      else Inr df)"

text \<open>
  The blood pressure is split into a local variable that nothing reads: the frame
  stays as it is. The two \<^verbatim>\<open>print\<close> calls at the end write the frame's first rows
  and do not change it.
\<close>

definition clean_blood_pressure :: "pandas \<Rightarrow> frame \<Rightarrow> error + frame" where
  "clean_blood_pressure L df =
     (if ''Blood Pressure'' \<in> set (names df)
      then and_then (getitem df ''Blood Pressure'') (\<lambda>c. Inr df)
      else Inr df)"

definition clean_data :: "pandas \<Rightarrow> frame \<Rightarrow> error + frame" where
  "clean_data L df0 =
     (let df = drop_duplicates df0 in
      and_then (clean_visit_date L df) (\<lambda>df.
      and_then (clean_age L df) (\<lambda>df.
      and_then (clean_gender L df) (\<lambda>df.
      and_then (clean_phone L df) (\<lambda>df.
      and_then (clean_email L df) (\<lambda>df.
      and_then (clean_cholesterol L df) (\<lambda>df.
      clean_blood_pressure L df)))))))"

section \<open>Anomaly detection\<close>

text \<open>
  \<^verbatim>\<open>scipy.stats.zscore\<close> divides in binary64: a quotient may be infinite or
  not-a-number. \<open>fdiv\<close> is that division on reals: zero by zero is not-a-number,
  anything else by zero is an infinity. The mean and the standard deviation are the
  population ones (\<^verbatim>\<open>ddof=0\<close>). \<open>dropna\<close> keeps the numbers of a column with their row
  labels, \<open>loc\<close> is \<^verbatim>\<open>df.loc[labels]\<close>: for every label in turn, the rows that carry it,
  and a \<^verbatim>\<open>KeyError\<close> for a label that no row carries. \<open>detect_anomalies\<close> returns what
  the source returns, the frame it was given as it is afterwards, and what it prints.
\<close>

datatype fl = Fin real | PInf | NInf | NaN

definition fdiv :: "real \<Rightarrow> real \<Rightarrow> fl" where
  "fdiv a b =
     (if b \<noteq> 0 then Fin (a / b)
      else if a = 0 then NaN else if 0 < a then PInf else NInf)"

definition fabs :: "fl \<Rightarrow> fl" where
  "fabs z = (case z of Fin x \<Rightarrow> Fin \<bar>x\<bar> | PInf \<Rightarrow> PInf | NInf \<Rightarrow> PInf | NaN \<Rightarrow> NaN)"

definition fgt :: "fl \<Rightarrow> real \<Rightarrow> bool" where
  "fgt z t = (case z of Fin x \<Rightarrow> t < x | PInf \<Rightarrow> True | NInf \<Rightarrow> False | NaN \<Rightarrow> False)"

definition mean :: "real list \<Rightarrow> real" where
  "mean xs = sum_list xs / real (length xs)"

definition std :: "real list \<Rightarrow> real" where
  "std xs = sqrt (mean (map (\<lambda>x. (x - mean xs)\<^sup>2) xs))"

definition zscore :: "real list \<Rightarrow> fl list" where
  "zscore xs = map (\<lambda>x. fdiv (x - mean xs) (std xs)) xs"

definition dropna :: "nat list \<Rightarrow> column \<Rightarrow> (nat \<times> real) list" where
  "dropna idx c =
     concat (map (\<lambda>(l, v). case v of Num r \<Rightarrow> [(l, r)] | _ \<Rightarrow> []) (zip idx (cells c)))"

definition loc_list :: "nat list \<Rightarrow> 'a list \<Rightarrow> nat list \<Rightarrow> 'a list" where
  "loc_list idx xs labels =
     concat (map (\<lambda>l. map snd (filter (\<lambda>p. fst p = l) (zip idx xs))) labels)"

definition loc :: "frame \<Rightarrow> nat list \<Rightarrow> error + frame" where
  "loc df labels =
     (if set labels \<subseteq> set (index df)
      then Inr \<lparr>index = loc_list (index df) (index df) labels,
               columns = map (\<lambda>(n, c). (n, c\<lparr>cells := loc_list (index df) (cells c) labels\<rparr>))
                           (columns df)\<rparr>
      else Inl (KeyError ''not in index''))"

datatype out = Line string | Shown frame

record detection =
  returned :: "error + frame"
  frame_after :: frame
  printed :: "out list"

definition detect_anomalies :: "pandas \<Rightarrow> frame \<Rightarrow> string \<Rightarrow> detection" where
  "detect_anomalies L df column =
     (if column \<notin> set (names df)
      then \<lparr>returned = Inr \<lparr>index = [], columns = []\<rparr>, frame_after = df,
            printed = [Line (''No column '' @ [CHR 0x27] @ column @ [CHR 0x27] @
                             '' for anomaly detection.'')]\<rparr>
      else case getitem df column of
        Inl e \<Rightarrow> \<lparr>returned = Inl e, frame_after = df, printed = []\<rparr>
      | Inr c \<Rightarrow>
         (let vals = dropna (index df) (to_numeric L c);
              z_scores = map fabs (zscore (map snd vals));
              labels = pick (map (\<lambda>z. fgt z 3) z_scores) (map fst vals)
          in case loc df labels of
               Inl e \<Rightarrow> \<lparr>returned = Inl e, frame_after = df, printed = []\<rparr>
             | Inr anomalies \<Rightarrow>
                 \<lparr>returned = Inr anomalies, frame_after = df,
                  printed = [Line (''Anomalies detected in '' @ [CHR 0x27] @ column @
                                   [CHR 0x27] @ '':''), Shown anomalies]\<rparr>))"

section \<open>Summary statistics\<close>











section \<open>The cleaning rules, column by column\<close>

text \<open>
  Each block of \<^verbatim>\<open>clean_data\<close> rewrites one column. \<open>map_col\<close> applies a function to
  the column of a given name; the functions \<open>age_col\<close> to \<open>cholesterol_col\<close> are the
  blocks' right-hand sides, and the \<open>_cell\<close> functions say what a block does to one
  cell, in the words of the specification.
\<close>

definition map_col :: "string \<Rightarrow> (column \<Rightarrow> column) \<Rightarrow> frame \<Rightarrow> frame" where
  "map_col k f df = df\<lparr>columns := map (\<lambda>(n, c). if n = k then (n, f c) else (n, c)) (columns df)\<rparr>"

definition age_col :: "pandas \<Rightarrow> column \<Rightarrow> column" where
  "age_col L c = (let a = to_numeric L c in mask_na (or_mask (lt_mask a 0) (gt_mask a 120)) a)"

definition gender_col :: "pandas \<Rightarrow> column \<Rightarrow> column" where
  "gender_col L c =
     (let g = str_map lower (str_map strip (astype_str L c));
          g2 = replace_values [(''m'', ''male''), (''f'', ''female'')] g
      in mask_na (not_mask (isin g2 [''male'', ''female''])) g2)"

definition phone_col :: "pandas \<Rightarrow> column \<Rightarrow> column" where
  "phone_col L c =
     (let p = str_map remove_non_digits (astype_str L c)
      in mask_na (not_mask (len_between p 7 15)) p)"

definition email_col :: "pandas \<Rightarrow> column \<Rightarrow> column" where
  "email_col L c = mask_na (not_mask (str_contains (astype_str L c) CHR ''@'')) c"

definition cholesterol_col :: "pandas \<Rightarrow> column \<Rightarrow> column" where
  "cholesterol_col L c =
     (let a = to_numeric L c;
          b = mask_na (or_mask (lt_mask a 50) (gt_mask a 400)) a
      in fillna (median b) b)"

definition age_cell :: "pandas \<Rightarrow> cell \<Rightarrow> cell" where
  "age_cell L v =
     (case numeric_cell L v of Num r \<Rightarrow> if r < 0 \<or> 120 < r then NA else Num r | _ \<Rightarrow> NA)"

definition gender_cell :: "pandas \<Rightarrow> cell \<Rightarrow> cell" where
  "gender_cell L v =
     (let s = lower (strip (str_cell L v));
          t = (if s = ''m'' then ''male'' else if s = ''f'' then ''female'' else s)
      in if t = ''male'' \<or> t = ''female'' then Str t else NA)"

definition phone_cell :: "pandas \<Rightarrow> cell \<Rightarrow> cell" where
  "phone_cell L v =
     (let d = filter is_digit (str_cell L v)
      in if 7 \<le> length d \<and> length d \<le> 15 then Str d else NA)"

definition email_cell :: "pandas \<Rightarrow> cell \<Rightarrow> cell" where
  "email_cell L v = (if CHR ''@'' \<in> set (str_cell L v) then v else NA)"

definition range_cell_of :: "pandas \<Rightarrow> real \<Rightarrow> real \<Rightarrow> cell \<Rightarrow> cell" where
  "range_cell_of L lo hi v =
     (case numeric_cell L v of Num r \<Rightarrow> if r < lo \<or> hi < r then NA else Num r | _ \<Rightarrow> NA)"

definition fill_cell :: "real option \<Rightarrow> cell \<Rightarrow> cell" where
  "fill_cell m v = (if v = NA then (case m of None \<Rightarrow> NA | Some r \<Rightarrow> Num r) else v)"

text \<open>
  The rules one after the other, and the rule of a column by the column's name.
\<close>

definition rules :: "pandas \<Rightarrow> frame \<Rightarrow> frame" where
  "rules L df =
     map_col ''Cholesterol'' (cholesterol_col L)
       (map_col ''Email'' (email_col L)
         (map_col ''Phone Number'' (phone_col L)
           (map_col ''Gender'' (gender_col L)
             (map_col ''Age'' (age_col L)
               (map_col ''Visit Date'' (to_datetime L) df)))))"

definition rule_for :: "pandas \<Rightarrow> string \<Rightarrow> column \<Rightarrow> column" where
  "rule_for L n =
     (if n = ''Visit Date'' then to_datetime L
      else if n = ''Age'' then age_col L
      else if n = ''Gender'' then gender_col L
      else if n = ''Phone Number'' then phone_col L
      else if n = ''Email'' then email_col L
      else if n = ''Cholesterol'' then cholesterol_col L
      else (\<lambda>c. c))"


text \<open>
  The test that \<^verbatim>\<open>detect_anomalies\<close> applies to one cell, given the numbers of the
  column, and the population variance, whose root is \<open>std\<close>.
\<close>

definition is_anomaly :: "real list \<Rightarrow> cell \<Rightarrow> bool" where
  "is_anomaly xs v =
     (case v of Num r \<Rightarrow> fgt (fabs (fdiv (r - mean xs) (std xs))) 3 | _ \<Rightarrow> False)"

definition variance :: "real list \<Rightarrow> real" where
  "variance xs = mean (map (\<lambda>x. (x - mean xs)\<^sup>2) xs)"



text \<open>
  A library for the examples: its numeric parser reads the text \<^verbatim>\<open>33\<close> and nothing
  else, its date parser reads nothing, and it formats every number as \<^verbatim>\<open>0\<close>.
\<close>

definition example_pandas :: pandas where
  "example_pandas =
     \<lparr>number_of = (\<lambda>v. if v = Str ''33'' then Some 33 else None),
      datetime_of = (\<lambda>v. None),
      text_of = (\<lambda>v. ''0'')\<rparr>"

section \<open>Frames and columns\<close>

lemma names_map_col [simp]: "names (map_col k f df) = names df"
  by (simp add: names_def map_col_def comp_def case_prod_unfold)

lemma index_map_col [simp]: "index (map_col k f df) = index df"
  by (simp add: map_col_def)

lemma map_of_map_col:
  "map_of (map (\<lambda>(n, c). if n = k then (n, f c) else (n, c)) xs) k' =
     (if k' = k then map_option f (map_of xs k) else map_of xs k')"
  by (induction xs) auto

lemma getitem_map_col:
  "getitem (map_col k f df) k' =
     (if k' = k then (case getitem df k of Inl e \<Rightarrow> Inl e | Inr c \<Rightarrow> Inr (f c)) else getitem df k')"
  by (auto simp: getitem_def map_col_def map_of_map_col split: option.splits)

lemma getitem_present:
  "k \<in> set (names df) \<Longrightarrow> \<exists>c. getitem df k = Inr c \<and> (k, c) \<in> set (columns df)"
  unfolding getitem_def names_def
  by (cases "map_of (columns df) k") (auto simp: map_of_eq_None_iff dest: map_of_SomeD)

lemma map_col_const:
  assumes "distinct (names df)" "getitem df k = Inr c"
  shows "map_col k (\<lambda>_. f c) df = map_col k f df"
proof -
  have "\<And>n c'. (n, c') \<in> set (columns df) \<Longrightarrow> n = k \<Longrightarrow> c' = c"
    using assms unfolding getitem_def names_def
    by (auto split: option.splits)
  then show ?thesis
    unfolding map_col_def by (auto intro!: map_cong arg_cong[where f="\<lambda>x. df\<lparr>columns := x\<rparr>"])
qed

lemma setitem_present: "k \<in> set (names df) \<Longrightarrow> setitem df k c = map_col k (\<lambda>_. c) df"
  by (simp add: setitem_def map_col_def)

lemma loc_set_na_present:
  "k \<in> set (names df) \<Longrightarrow> loc_set_na df bs k = map_col k (mask_na bs) df"
  by (simp add: loc_set_na_def map_col_def)

lemma map_col_map_col: "map_col k g (map_col k f df) = map_col k (g \<circ> f) df"
  by (auto simp: map_col_def case_prod_unfold intro!: arg_cong[where f="\<lambda>x. df\<lparr>columns := x\<rparr>"])

lemma and_then_Inr [simp]: "and_then (Inr x) f = f x"
  by (simp add: and_then_def)

lemma map_col_absent: "k \<notin> set (names df) \<Longrightarrow> map_col k f df = df"
proof -
  assume a: "k \<notin> set (names df)"
  have "map (\<lambda>(n, c). if n = k then (n, f c) else (n, c)) (columns df) = columns df"
    using a unfolding names_def by (intro map_idI) force
  then show ?thesis by (simp add: map_col_def)
qed

lemma clean_visit_date_eq:
  assumes "distinct (names df)"
  shows "clean_visit_date L df = Inr (map_col ''Visit Date'' (to_datetime L) df)"
proof (cases "''Visit Date'' \<in> set (names df)")
  case True
  then obtain c where c: "getitem df ''Visit Date'' = Inr c"
    using getitem_present by blast
  show ?thesis
    unfolding clean_visit_date_def
    using True c map_col_const[OF assms c, of "to_datetime L"]
    by (simp add: setitem_present)
next
  case False
  then show ?thesis by (simp add: clean_visit_date_def map_col_absent)
qed

lemma clean_age_eq:
  assumes "distinct (names df)"
  shows "clean_age L df = Inr (map_col ''Age'' (age_col L) df)"
proof (cases "''Age'' \<in> set (names df)")
  case True
  then obtain c where c: "getitem df ''Age'' = Inr c"
    using getitem_present by blast
  show ?thesis
    unfolding clean_age_def
    using True c map_col_const[OF assms c, of "age_col L"]
    by (simp add: setitem_present loc_set_na_present getitem_map_col map_col_map_col
        comp_def age_col_def Let_def)
next
  case False
  then show ?thesis by (simp add: clean_age_def map_col_absent)
qed

lemma clean_gender_eq:
  assumes "distinct (names df)"
  shows "clean_gender L df = Inr (map_col ''Gender'' (gender_col L) df)"
proof (cases "''Gender'' \<in> set (names df)")
  case True
  then obtain c where c: "getitem df ''Gender'' = Inr c"
    using getitem_present by blast
  show ?thesis
    unfolding clean_gender_def
    using True c map_col_const[OF assms c, of "gender_col L"]
    by (simp add: setitem_present loc_set_na_present getitem_map_col map_col_map_col
        comp_def gender_col_def Let_def)
next
  case False
  then show ?thesis by (simp add: clean_gender_def map_col_absent)
qed

lemma clean_phone_eq:
  assumes "distinct (names df)"
  shows "clean_phone L df = Inr (map_col ''Phone Number'' (phone_col L) df)"
proof (cases "''Phone Number'' \<in> set (names df)")
  case True
  then obtain c where c: "getitem df ''Phone Number'' = Inr c"
    using getitem_present by blast
  show ?thesis
    unfolding clean_phone_def
    using True c map_col_const[OF assms c, of "phone_col L"]
    by (simp add: setitem_present loc_set_na_present getitem_map_col map_col_map_col
        comp_def phone_col_def Let_def)
next
  case False
  then show ?thesis by (simp add: clean_phone_def map_col_absent)
qed

lemma clean_email_eq:
  assumes "distinct (names df)"
  shows "clean_email L df = Inr (map_col ''Email'' (email_col L) df)"
proof (cases "''Email'' \<in> set (names df)")
  case True
  then obtain c where c: "getitem df ''Email'' = Inr c"
    using getitem_present by blast
  have eq: "map_col ''Email'' (mask_na (not_mask (str_contains (astype_str L c) CHR ''@''))) df
      = map_col ''Email'' (email_col L) df"
  proof -
    have "\<And>n c'. (n, c') \<in> set (columns df) \<Longrightarrow> n = ''Email'' \<Longrightarrow> c' = c"
      using assms c unfolding getitem_def names_def by (auto split: option.splits)
    then show ?thesis
      unfolding map_col_def email_col_def
      by (auto intro!: map_cong arg_cong[where f="\<lambda>x. df\<lparr>columns := x\<rparr>"])
  qed
  show ?thesis
    unfolding clean_email_def using True c eq
    by (simp add: loc_set_na_present)
next
  case False
  then show ?thesis by (simp add: clean_email_def map_col_absent)
qed

lemma clean_cholesterol_eq:
  assumes "distinct (names df)"
  shows "clean_cholesterol L df = Inr (map_col ''Cholesterol'' (cholesterol_col L) df)"
proof (cases "''Cholesterol'' \<in> set (names df)")
  case True
  then obtain c where c: "getitem df ''Cholesterol'' = Inr c"
    using getitem_present by blast
  show ?thesis
    unfolding clean_cholesterol_def
    using True c map_col_const[OF assms c, of "cholesterol_col L"]
    by (simp add: setitem_present loc_set_na_present getitem_map_col map_col_map_col
        comp_def cholesterol_col_def Let_def)
next
  case False
  then show ?thesis by (simp add: clean_cholesterol_def map_col_absent)
qed

lemma clean_blood_pressure_eq: "clean_blood_pressure L df = Inr df"
proof (cases "''Blood Pressure'' \<in> set (names df)")
  case True
  then obtain c where c: "getitem df ''Blood Pressure'' = Inr c"
    using getitem_present by blast
  then show ?thesis by (simp add: clean_blood_pressure_def)
next
  case False
  then show ?thesis by (simp add: clean_blood_pressure_def)
qed

lemma map2_same: "map2 f (map p xs) xs = map (\<lambda>x. f (p x) x) xs"
  by (induction xs) auto

lemma mask_na_pointwise:
  "cells c = vs \<Longrightarrow> mask_na (map p vs) c = c\<lparr>cells := map (\<lambda>v. if p v then NA else v) vs\<rparr>"
  by (simp add: mask_na_def map2_same)

lemma numeric_cell_cases: "numeric_cell L v = NA \<or> (\<exists>r. numeric_cell L v = Num r)"
  by (auto simp: numeric_cell_def split: cell.splits option.splits)

lemma range_cell:
  "(if (case numeric_cell L v of Num r \<Rightarrow> r < lo \<or> hi < r | _ \<Rightarrow> False) then NA else numeric_cell L v)
     = (case numeric_cell L v of Num r \<Rightarrow> if r < lo \<or> hi < r then NA else Num r | _ \<Rightarrow> NA)"
  using numeric_cell_cases[of L v] by auto

lemma range_mask:
  "or_mask (lt_mask (to_numeric L c) lo) (gt_mask (to_numeric L c) hi)
      = map (\<lambda>v. case v of Num r \<Rightarrow> r < lo \<or> hi < r | _ \<Rightarrow> False) (cells (to_numeric L c))"
  by (auto simp: or_mask_def lt_mask_def gt_mask_def to_numeric_def zip_map_map zip_same_conv_map
        split: cell.splits)

lemma age_col_cells: "age_col L c = \<lparr>dtype = Numeric, cells = map (age_cell L) (cells c)\<rparr>"
  unfolding age_col_def Let_def range_mask
  by (simp add: mask_na_pointwise) (simp add: to_numeric_def age_cell_def range_cell)

lemma gender_col_cells: "gender_col L c = \<lparr>dtype = Object, cells = map (gender_cell L) (cells c)\<rparr>"
  unfolding gender_col_def Let_def
  by (simp add: astype_str_def str_map_def replace_values_def isin_def not_mask_def
      mask_na_def comp_def zip_map_map zip_same_conv_map gender_cell_def Let_def)

lemma phone_col_cells: "phone_col L c = \<lparr>dtype = Object, cells = map (phone_cell L) (cells c)\<rparr>"
  unfolding phone_col_def Let_def
  by (auto simp: astype_str_def str_map_def len_between_def not_mask_def remove_non_digits_def
      mask_na_def comp_def zip_map_map zip_same_conv_map phone_cell_def Let_def)

lemma email_col_cells: "email_col L c = c\<lparr>cells := map (email_cell L) (cells c)\<rparr>"
  unfolding email_col_def
  by (simp add: astype_str_def str_contains_def not_mask_def
      mask_na_def comp_def map2_same email_cell_def)

lemma cholesterol_col_cells:
  "cholesterol_col L c =
     \<lparr>dtype = Numeric,
      cells = map (fill_cell (median_of (valid (map (range_cell_of L 50 400) (cells c)))))
                (map (range_cell_of L 50 400) (cells c))\<rparr>"
proof -
  have b: "mask_na (or_mask (lt_mask (to_numeric L c) 50) (gt_mask (to_numeric L c) 400)) (to_numeric L c)
      = \<lparr>dtype = Numeric, cells = map (range_cell_of L 50 400) (cells c)\<rparr>"
    unfolding range_mask
    by (simp add: mask_na_pointwise) (simp add: to_numeric_def range_cell_of_def range_cell)
  show ?thesis
    unfolding cholesterol_col_def Let_def b
    by (auto simp: fillna_def median_def fill_cell_def split: option.splits)
qed

lemma names_select [simp]: "names (select df bs) = names df"
  by (simp add: names_def select_def comp_def case_prod_unfold)

lemma names_drop_duplicates [simp]: "names (drop_duplicates df) = names df"
  by (simp add: drop_duplicates_def)

lemma clean_data_eq:
  assumes "distinct (names df)"
  shows "clean_data L df = Inr (rules L (drop_duplicates df))"
  unfolding clean_data_def Let_def rules_def
  using assms
  by (simp add: clean_visit_date_eq clean_age_eq clean_gender_eq clean_phone_eq clean_email_eq
      clean_cholesterol_eq clean_blood_pressure_eq)

lemma index_rules [simp]: "index (rules L df) = index df"
  by (simp add: rules_def)

lemma names_rules [simp]: "names (rules L df) = names df"
  by (simp add: rules_def)

lemma getitem_rules_age:
  "getitem df ''Age'' = Inr c \<Longrightarrow> getitem (rules L df) ''Age'' = Inr (age_col L c)"
  by (simp add: rules_def getitem_map_col)


lemma getitem_rules_phone:
  "getitem df ''Phone Number'' = Inr c \<Longrightarrow>
     getitem (rules L df) ''Phone Number'' = Inr (phone_col L c)"
  by (simp add: rules_def getitem_map_col)

lemma getitem_rules_email:
  "getitem df ''Email'' = Inr c \<Longrightarrow> getitem (rules L df) ''Email'' = Inr (email_col L c)"
  by (simp add: rules_def getitem_map_col)


lemmas frame_eval =
  wf_frame_def names_def getitem_def drop_duplicates_def select_def pick_def duplicated_def
  rows_def row_def not_mask_def


lemma valid_simps [simp]:
  "valid [] = []" "valid (Num r # vs) = r # valid vs" "valid (NA # vs) = valid vs"
  "valid (Str t # vs) = valid vs" "valid (Date d # vs) = valid vs"
  by (simp_all add: valid_def)

section \<open>Cleaning a cleaned frame\<close>


lemma set_pick: "set (pick bs xs) \<subseteq> set xs"
  unfolding pick_def by (auto dest: set_zip_rightD)



text \<open>A rule applied to rows picked from its own result changes nothing.\<close>

lemma numeric_cell_idem [simp]: "numeric_cell L (numeric_cell L v) = numeric_cell L v"
  by (auto simp: numeric_cell_def split: cell.splits option.splits)

lemma datetime_cell_idem [simp]: "datetime_cell L (datetime_cell L v) = datetime_cell L v"
  by (auto simp: datetime_cell_def split: cell.splits option.splits)

lemma range_cell_of_idem [simp]:
  "range_cell_of L lo hi (range_cell_of L lo hi v) = range_cell_of L lo hi v"
  by (auto simp: range_cell_of_def numeric_cell_def split: cell.splits option.splits)

lemma gender_cell_idem [simp]: "gender_cell L (gender_cell L v) = gender_cell L v"
  by (simp add: gender_cell_def Let_def str_cell_def lower_def lower_char_def strip_def
      is_space_def)

lemma phone_cell_NA: "phone_cell L NA = NA"
  by (simp add: phone_cell_def str_cell_def is_digit_def)

lemma phone_cell_idem [simp]: "phone_cell L (phone_cell L v) = phone_cell L v"
proof (cases "7 \<le> length (filter is_digit (str_cell L v)) \<and>
              length (filter is_digit (str_cell L v)) \<le> 15")
  case True
  then have "phone_cell L v = Str (filter is_digit (str_cell L v))"
    by (simp add: phone_cell_def)
  moreover have "phone_cell L (Str (filter is_digit (str_cell L v)))
       = Str (filter is_digit (str_cell L v))"
    using True by (simp add: phone_cell_def str_cell_def)
  ultimately show ?thesis by simp
next
  case False
  then have "phone_cell L v = NA" by (auto simp: phone_cell_def)
  then show ?thesis by (simp add: phone_cell_NA)
qed

lemma email_cell_idem [simp]: "email_cell L (email_cell L v) = email_cell L v"
  by (simp add: email_cell_def str_cell_def)







lemma set_valid: "set (valid vs) = {r. Num r \<in> set vs}"
  by (induction vs) (auto simp: valid_def split: cell.splits)













lemma length_rule_for [simp]: "length (cells (rule_for L n c)) = length (cells c)"
  by (simp add: rule_for_def to_datetime_def age_col_cells gender_col_cells phone_col_cells
      email_col_cells cholesterol_col_cells)













section \<open>Properties of the cleaner\<close>

text \<open>
  C4. For a frame with an Age column, \<^verbatim>\<open>clean_data\<close> returns a frame whose Age cells
  are those of the de-duplicated input, coerced to numbers: a cell that is not a
  number after coercion is missing, a number below 0 or above 120 is missing, and
  a number from 0 to 120 is kept as it is.
\<close>

theorem age_cleaning:
  assumes "wf_frame df" and "getitem (drop_duplicates df) ''Age'' = Inr c"
  shows "\<exists>df' c'. clean_data L df = Inr df' \<and> index df' = index (drop_duplicates df) \<and>
           getitem df' ''Age'' = Inr c' \<and>
           cells c' = map (\<lambda>v. case numeric_cell L v of
                                  Num r \<Rightarrow> if r < 0 \<or> 120 < r then NA else Num r
                                | _ \<Rightarrow> NA) (cells c)"
proof -
  have d: "distinct (names df)" using assms(1) by (simp add: wf_frame_def)
  show ?thesis
    using getitem_rules_age[OF assms(2), of L]
    by (simp add: clean_data_eq[OF d] age_col_cells age_cell_def)
qed

theorem age_cleaning_witness:
  "\<exists>df' c'. clean_data example_pandas
      \<lparr>index = [0, 1, 2, 3, 4, 5, 6, 7],
       columns = [(''Age'', \<lparr>dtype = Object,
          cells = [Num 45, Str ''abc'', Num 130, Num (-1), Num 0, Num 120, NA, Str ''33'']\<rparr>)]\<rparr> = Inr df' \<and>
      getitem df' ''Age'' = Inr c' \<and>
      cells c' = [Num 45, NA, NA, NA, Num 0, Num 120, NA, Num 33]"
proof -
  let ?df = "\<lparr>index = [0, 1, 2, 3, 4, 5, 6, 7::nat],
       columns = [(''Age'', \<lparr>dtype = Object,
          cells = [Num 45, Str ''abc'', Num 130, Num (-1), Num 0, Num 120, NA, Str ''33'']\<rparr>)]\<rparr>"
  have w: "wf_frame ?df" by (simp add: frame_eval)
  have g: "getitem (drop_duplicates ?df) ''Age'' = Inr \<lparr>dtype = Object,
          cells = [Num 45, Str ''abc'', Num 130, Num (-1), Num 0, Num 120, NA, Str ''33'']\<rparr>"
    by (simp add: frame_eval)
  show ?thesis
    using age_cleaning[OF w g, of example_pandas]
    by (auto simp: numeric_cell_def example_pandas_def)
qed




text \<open>
  C6. For a frame with a Phone Number column, \<^verbatim>\<open>clean_data\<close> removes every character
  that is not a digit and makes the result missing unless it has 7 to 15 digits
  (\<open>phone_cell\<close>). The three values of the specification come out as it says.
\<close>

theorem phone_cleaning:
  "(wf_frame df \<and> getitem (drop_duplicates df) ''Phone Number'' = Inr c \<longrightarrow>
      (\<exists>df' c'. clean_data L df = Inr df' \<and> index df' = index (drop_duplicates df) \<and>
         getitem df' ''Phone Number'' = Inr c' \<and> cells c' = map (phone_cell L) (cells c))) \<and>
   clean_data L
     \<lparr>index = [0, 1, 2],
      columns = [(''Phone Number'', \<lparr>dtype = Object,
         cells = [Str ''(555) 123-4567'', Str ''123'', Str ''abc'']\<rparr>)]\<rparr>
   = Inr \<lparr>index = [0, 1, 2],
      columns = [(''Phone Number'', \<lparr>dtype = Object,
         cells = [Str ''5551234567'', NA, NA]\<rparr>)]\<rparr>"
proof (intro conjI impI)
  assume a: "wf_frame df \<and> getitem (drop_duplicates df) ''Phone Number'' = Inr c"
  then have d: "distinct (names df)" by (simp add: wf_frame_def)
  show "\<exists>df' c'. clean_data L df = Inr df' \<and> index df' = index (drop_duplicates df) \<and>
         getitem df' ''Phone Number'' = Inr c' \<and> cells c' = map (phone_cell L) (cells c)"
    using a getitem_rules_phone[of "drop_duplicates df" c L]
    by (simp add: clean_data_eq[OF d] phone_col_cells)
next
  let ?df = "\<lparr>index = [0, 1, 2::nat],
      columns = [(''Phone Number'', \<lparr>dtype = Object,
         cells = [Str ''(555) 123-4567'', Str ''123'', Str ''abc'']\<rparr>)]\<rparr>"
  have dd: "drop_duplicates ?df = ?df" by (simp add: frame_eval)
  have d: "distinct (names ?df)" by (simp add: names_def)
  show "clean_data L ?df = Inr \<lparr>index = [0, 1, 2],
      columns = [(''Phone Number'', \<lparr>dtype = Object,
         cells = [Str ''5551234567'', NA, NA]\<rparr>)]\<rparr>"
    unfolding clean_data_eq[OF d] dd
    by (simp add: rules_def map_col_def phone_col_cells phone_cell_def str_cell_def is_digit_def)
qed

theorem phone_cleaning_witness:
  "\<exists>df' c'. clean_data example_pandas
      \<lparr>index = [0, 1, 2, 3, 4],
       columns = [(''Phone Number'', \<lparr>dtype = Object,
          cells = [Str ''555-0100'', NA, Str ''555-0100'', Str ''12 34 56'',
                   Str ''+1 (555) 0100 0200 0300 0400'']\<rparr>)]\<rparr> = Inr df' \<and>
      index df' = [0, 1, 3, 4] \<and> getitem df' ''Phone Number'' = Inr c' \<and>
      cells c' = [Str ''5550100'', NA, NA, NA]"
proof -
  let ?df = "\<lparr>index = [0, 1, 2, 3, 4::nat],
       columns = [(''Phone Number'', \<lparr>dtype = Object,
          cells = [Str ''555-0100'', NA, Str ''555-0100'', Str ''12 34 56'',
                   Str ''+1 (555) 0100 0200 0300 0400'']\<rparr>)]\<rparr>"
  let ?c = "\<lparr>dtype = Object,
          cells = [Str ''555-0100'', NA, Str ''12 34 56'',
                   Str ''+1 (555) 0100 0200 0300 0400'']\<rparr>"
  have w: "wf_frame ?df" by (simp add: frame_eval)
  have i: "index (drop_duplicates ?df) = [0, 1, 3, 4]" by (simp add: frame_eval)
  have g: "getitem (drop_duplicates ?df) ''Phone Number'' = Inr ?c"
    by (simp add: frame_eval)
  show ?thesis
    using phone_cleaning[of ?df ?c example_pandas] w g i
    by (auto simp: phone_cell_def str_cell_def is_digit_def)
qed

text \<open>
  C7. For a frame with an Email column, \<^verbatim>\<open>clean_data\<close> keeps a cell whose text has an
  \<^verbatim>\<open>@\<close> as it is and makes every other cell missing; a missing cell reads as the
  text \<^verbatim>\<open>nan\<close> and stays missing.
\<close>

theorem email_cleaning:
  "(wf_frame df \<and> getitem (drop_duplicates df) ''Email'' = Inr c \<longrightarrow>
      (\<exists>df' c'. clean_data L df = Inr df' \<and> index df' = index (drop_duplicates df) \<and>
         getitem df' ''Email'' = Inr c' \<and>
         cells c' = map (\<lambda>v. if CHR ''@'' \<in> set (str_cell L v) then v else NA) (cells c))) \<and>
   str_cell L NA = ''nan'' \<and>
   clean_data L
     \<lparr>index = [0, 1, 2],
      columns = [(''Email'', \<lparr>dtype = Object,
         cells = [Str ''a@b.com'', Str ''not-an-email'', NA]\<rparr>)]\<rparr>
   = Inr \<lparr>index = [0, 1, 2],
      columns = [(''Email'', \<lparr>dtype = Object,
         cells = [Str ''a@b.com'', NA, NA]\<rparr>)]\<rparr>"
proof (intro conjI impI)
  assume a: "wf_frame df \<and> getitem (drop_duplicates df) ''Email'' = Inr c"
  then have d: "distinct (names df)" by (simp add: wf_frame_def)
  show "\<exists>df' c'. clean_data L df = Inr df' \<and> index df' = index (drop_duplicates df) \<and>
         getitem df' ''Email'' = Inr c' \<and>
         cells c' = map (\<lambda>v. if CHR ''@'' \<in> set (str_cell L v) then v else NA) (cells c)"
    using a getitem_rules_email[of "drop_duplicates df" c L]
    by (simp add: clean_data_eq[OF d] email_col_cells email_cell_def)
next
  show "str_cell L NA = ''nan''" by (simp add: str_cell_def)
next
  let ?df = "\<lparr>index = [0, 1, 2::nat],
      columns = [(''Email'', \<lparr>dtype = Object,
         cells = [Str ''a@b.com'', Str ''not-an-email'', NA]\<rparr>)]\<rparr>"
  have dd: "drop_duplicates ?df = ?df" by (simp add: frame_eval)
  have d: "distinct (names ?df)" by (simp add: names_def)
  show "clean_data L ?df = Inr \<lparr>index = [0, 1, 2],
      columns = [(''Email'', \<lparr>dtype = Object,
         cells = [Str ''a@b.com'', NA, NA]\<rparr>)]\<rparr>"
    unfolding clean_data_eq[OF d] dd
    by (simp add: rules_def map_col_def email_col_cells email_cell_def str_cell_def)
qed

theorem email_cleaning_witness:
  "\<exists>df' c'. clean_data example_pandas
      \<lparr>index = [0, 1, 2, 3],
       columns = [(''Email'', \<lparr>dtype = Object,
          cells = [Str ''x@y'', NA, Num 7, Str ''x.y'']\<rparr>)]\<rparr> = Inr df' \<and>
      index df' = [0, 1, 2, 3] \<and> getitem df' ''Email'' = Inr c' \<and>
      cells c' = [Str ''x@y'', NA, NA, NA]"
proof -
  let ?df = "\<lparr>index = [0, 1, 2, 3::nat],
       columns = [(''Email'', \<lparr>dtype = Object,
          cells = [Str ''x@y'', NA, Num 7, Str ''x.y'']\<rparr>)]\<rparr>"
  let ?c = "\<lparr>dtype = Object, cells = [Str ''x@y'', NA, Num 7, Str ''x.y'']\<rparr>"
  have w: "wf_frame ?df" by (simp add: frame_eval)
  have i: "index (drop_duplicates ?df) = [0, 1, 2, 3]" by (simp add: frame_eval)
  have g: "getitem (drop_duplicates ?df) ''Email'' = Inr ?c"
    by (simp add: frame_eval)
  show ?thesis
    using email_cleaning[of ?df ?c example_pandas] w g i
    by (auto simp: str_cell_def example_pandas_def)
qed







section \<open>Properties of the anomaly detector\<close>

lemma pick_Nil [simp]: "pick [] xs = []" "pick bs [] = []"
  by (simp_all add: pick_def)

lemma pick_Cons [simp]:
  "pick (b # bs) (x # xs) = (if b then x # pick bs xs else pick bs xs)"
  by (simp add: pick_def)

lemma dropna_valid:
  "length idx = length vs \<Longrightarrow> map snd (dropna idx \<lparr>dtype = t, cells = vs\<rparr>) = valid vs"
  by (induction idx vs rule: list_induct2) (auto simp: dropna_def valid_def split: cell.splits)

lemma dropna_labels:
  "length idx = length vs \<Longrightarrow>
     pick (map f (map snd (dropna idx \<lparr>dtype = t, cells = vs\<rparr>)))
          (map fst (dropna idx \<lparr>dtype = t, cells = vs\<rparr>))
     = pick (map (\<lambda>v. case v of Num r \<Rightarrow> f r | _ \<Rightarrow> False) vs) idx"
proof (induction idx vs rule: list_induct2)
  case Nil
  then show ?case by (simp add: dropna_def)
next
  case (Cons l idx v vs)
  have step: "dropna (l # idx) \<lparr>dtype = t, cells = v # vs\<rparr>
      = (case v of Num r \<Rightarrow> [(l, r)] | _ \<Rightarrow> []) @ dropna idx \<lparr>dtype = t, cells = vs\<rparr>"
    by (simp add: dropna_def)
  show ?case
    unfolding step using Cons.IH by (cases v) auto
qed

lemma loc_list_skip:
  "l \<notin> set labels \<Longrightarrow> loc_list (l # idx) (x # xs) labels = loc_list idx xs labels"
  unfolding loc_list_def by (induction labels) auto

lemma loc_list_pick:
  "length idx = length bs \<Longrightarrow> length bs = length xs \<Longrightarrow> distinct idx \<Longrightarrow>
     loc_list idx xs (pick bs idx) = pick bs xs"
proof (induction idx bs xs rule: list_induct3)
  case Nil
  then show ?case by (simp add: loc_list_def)
next
  case (Cons l idx b bs x xs)
  have notin: "l \<notin> set (pick bs idx)"
    using Cons.prems set_pick[of bs idx] by auto
  have "loc_list (l # idx) (x # xs) (pick bs idx) = loc_list idx xs (pick bs idx)"
    by (rule loc_list_skip[OF notin])
  moreover have "loc_list idx xs (pick bs idx) = pick bs xs"
    using Cons.IH Cons.prems by simp
  ultimately have rest: "loc_list (l # idx) (x # xs) (pick bs idx) = pick bs xs" by simp
  have none: "filter (\<lambda>p. fst p = l) (zip idx xs) = []"
    using Cons.prems by (auto simp: filter_empty_conv dest: set_zip_leftD)
  show ?case
  proof (cases b)
    case True
    have "loc_list (l # idx) (x # xs) (l # pick bs idx)
        = x # loc_list (l # idx) (x # xs) (pick bs idx)"
      by (simp add: loc_list_def none)
    then show ?thesis using True rest by simp
  next
    case False
    then show ?thesis using rest by simp
  qed
qed

lemma loc_pick:
  assumes "wf_frame df" and "length bs = length (index df)"
  shows "loc df (pick bs (index df)) = Inr (select df bs)"
proof -
  have sub: "set (pick bs (index df)) \<subseteq> set (index df)" by (rule set_pick)
  have d: "distinct (index df)" using assms(1) by (simp add: wf_frame_def)
  have i: "loc_list (index df) (index df) (pick bs (index df)) = pick bs (index df)"
    using loc_list_pick[of "index df" bs "index df"] assms(2) d by simp
  have c: "loc_list (index df) (cells c) (pick bs (index df)) = pick bs (cells c)"
    if "(n, c) \<in> set (columns df)" for n c
  proof -
    have "length (cells c) = length (index df)"
      using assms(1) that by (auto simp: wf_frame_def list_all_iff)
    then show ?thesis using loc_list_pick[of "index df" bs "cells c"] assms(2) d by simp
  qed
  have "map (\<lambda>(n, c). (n, c\<lparr>cells := loc_list (index df) (cells c) (pick bs (index df))\<rparr>)) (columns df)
      = map (\<lambda>(n, c). (n, c\<lparr>cells := pick bs (cells c)\<rparr>)) (columns df)"
    using c by (intro map_cong) auto
  then show ?thesis using sub i by (simp add: loc_def select_def)
qed

lemma detect_anomalies_select:
  assumes "wf_frame df" and "getitem df column = Inr c"
  shows "detect_anomalies L df column =
     (let res = select df (map (is_anomaly (valid (cells (to_numeric L c)))) (cells (to_numeric L c)))
      in \<lparr>returned = Inr res, frame_after = df,
          printed = [Line (''Anomalies detected in '' @ [CHR 0x27] @ column @ [CHR 0x27] @ '':''),
                     Shown res]\<rparr>)"
proof -
  have kc: "(column, c) \<in> set (columns df)"
    using assms(2) by (auto simp: getitem_def split: option.splits dest: map_of_SomeD)
  then have pres: "column \<in> set (names df)" by (force simp: names_def)
  have len: "length (index df) = length (cells (to_numeric L c))"
    using assms(1) kc by (auto simp: wf_frame_def list_all_iff to_numeric_def)
  let ?vs = "cells (to_numeric L c)"
  have tn: "to_numeric L c = \<lparr>dtype = Numeric, cells = ?vs\<rparr>" by (simp add: to_numeric_def)
  let ?f = "\<lambda>r. fgt (fabs (fdiv (r - mean (valid ?vs)) (std (valid ?vs)))) 3"
  have v: "map snd (dropna (index df) (to_numeric L c)) = valid ?vs"
    using dropna_valid[OF len, of Numeric] tn by simp
  have "pick (map (\<lambda>z. fgt z 3) (map fabs (zscore (map snd (dropna (index df) (to_numeric L c))))))
          (map fst (dropna (index df) (to_numeric L c)))
      = pick (map ?f (map snd (dropna (index df) (to_numeric L c))))
          (map fst (dropna (index df) (to_numeric L c)))"
    unfolding v by (simp add: zscore_def comp_def)
  also have "\<dots> = pick (map (is_anomaly (valid ?vs)) ?vs) (index df)"
    using dropna_labels[OF len, of ?f Numeric] tn by (simp add: is_anomaly_def[abs_def])
  finally have lab: "pick (map (\<lambda>z. fgt z 3) (map fabs (zscore (map snd (dropna (index df) (to_numeric L c))))))
          (map fst (dropna (index df) (to_numeric L c)))
      = pick (map (is_anomaly (valid ?vs)) ?vs) (index df)" .
  have "loc df (pick (map (is_anomaly (valid ?vs)) ?vs) (index df))
      = Inr (select df (map (is_anomaly (valid ?vs)) ?vs))"
    using loc_pick[OF assms(1)] len by simp
  then show ?thesis
    using pres assms(2) lab by (simp add: detect_anomalies_def Let_def del: map_map)
qed

lemma std_variance: "std xs = sqrt (variance xs)"
  by (simp add: std_def variance_def)

lemma variance_nonneg: "0 \<le> variance xs"
  unfolding variance_def mean_def
  by (intro divide_nonneg_nonneg sum_list_nonneg) auto

lemma std_nonneg: "0 \<le> std xs"
  by (simp add: std_variance variance_nonneg)





lemma mean_replicate: "0 < n \<Longrightarrow> mean (replicate n v) = v"
  by (simp add: mean_def sum_list_replicate)

lemma zscore_constant:
  assumes "\<forall>x\<in>set xs. \<forall>y\<in>set xs. x = y"
  shows "\<forall>z\<in>set (zscore xs). z = NaN"
proof (cases xs)
  case Nil
  then show ?thesis by (simp add: zscore_def)
next
  case (Cons v vs)
  then have "\<forall>y\<in>set xs. y = v" using assms by auto
  then have r: "xs = replicate (length xs) v" by (simp add: replicate_length_same)
  have n: "0 < length xs" using Cons by simp
  have m: "mean xs = v" using mean_replicate[OF n, of v] r by simp
  have "map (\<lambda>x. (x - v)\<^sup>2) xs = replicate (length xs) 0"
    by (subst r) (simp only: map_replicate, simp)
  then have "std xs = 0" using mean_replicate[OF n, of 0] by (simp add: std_def m)
  then show ?thesis
    using \<open>\<forall>y\<in>set xs. y = v\<close> by (auto simp: zscore_def m fdiv_def)
qed

lemma pick_none: "\<forall>x\<in>set xs. \<not> f x \<Longrightarrow> pick (map f xs) ys = []"
  unfolding pick_def by (auto simp: filter_empty_conv dest!: set_zip_leftD)

lemma Num_in_valid: "Num r \<in> set vs \<Longrightarrow> r \<in> set (valid vs)"
  by (simp add: set_valid)

lemma is_anomaly_constant:
  assumes "\<forall>x\<in>set (valid vs). \<forall>y\<in>set (valid vs). x = y" and "v \<in> set vs"
  shows "\<not> is_anomaly (valid vs) v"
proof (cases v)
  case (Num r)
  then have r: "r \<in> set (valid vs)" using assms(2) by (simp add: set_valid)
  have "fdiv (r - mean (valid vs)) (std (valid vs)) \<in> set (zscore (valid vs))"
    using r by (auto simp: zscore_def)
  then have "fdiv (r - mean (valid vs)) (std (valid vs)) = NaN"
    using zscore_constant[OF assms(1)] by blast
  then show ?thesis using Num by (simp add: is_anomaly_def fabs_def fgt_def)
qed (simp_all add: is_anomaly_def)




lemma sum_list_insert:
  "sum_list (map f (pre @ [y] @ post)) = sum_list (map f (pre @ post)) + (f y :: real)"
  by simp









text \<open>
  C8. For a column name that the frame does not have, \<^verbatim>\<open>detect_anomalies\<close> raises
  nothing: it returns a frame with no rows and no columns, prints the one line
  that names the column, and leaves the frame it was given as it was.
\<close>

theorem missing_column_detection:
  "column \<notin> set (names df) \<longrightarrow>
     returned (detect_anomalies L df column) = Inr \<lparr>index = [], columns = []\<rparr> \<and>
     frame_after (detect_anomalies L df column) = df \<and>
     printed (detect_anomalies L df column) =
       [Line (''No column '' @ [CHR 0x27] @ column @ [CHR 0x27] @ '' for anomaly detection.'')]"
  by (simp add: detect_anomalies_def)

theorem missing_column_detection_witness:
  "returned (detect_anomalies example_pandas
      \<lparr>index = [0, 1], columns = [(''Age'', \<lparr>dtype = Numeric, cells = [Num 30, Num 41]\<rparr>)]\<rparr>
      ''Cholesterol'') = Inr \<lparr>index = [], columns = []\<rparr> \<and>
   printed (detect_anomalies example_pandas
      \<lparr>index = [0, 1], columns = [(''Age'', \<lparr>dtype = Numeric, cells = [Num 30, Num 41]\<rparr>)]\<rparr>
      ''Cholesterol'') = [Line ''No column 'Cholesterol' for anomaly detection.'']"
  using missing_column_detection[of "''Cholesterol''"
      "\<lparr>index = [0, 1], columns = [(''Age'', \<lparr>dtype = Numeric, cells = [Num 30, Num 41]\<rparr>)]\<rparr>"
      example_pandas]
  by (simp add: names_def)

text \<open>
  C10. When the numbers of the target column all coincide (none, one, or several
  equal ones), every standard score is not-a-number, not-a-number does not exceed
  3, and \<^verbatim>\<open>detect_anomalies\<close> returns, without raising, a frame with no rows.
\<close>

theorem constant_column_detection:
  "wf_frame df \<and> getitem df column = Inr c \<and>
   (\<forall>x\<in>set (valid (cells (to_numeric L c))). \<forall>y\<in>set (valid (cells (to_numeric L c))). x = y) \<longrightarrow>
     (\<exists>res. returned (detect_anomalies L df column) = Inr res \<and> index res = [] \<and>
        rows res = [] \<and> list_all (\<lambda>(n, c'). cells c' = []) (columns res)) \<and>
     frame_after (detect_anomalies L df column) = df \<and>
     (\<forall>z\<in>set (zscore (valid (cells (to_numeric L c)))). z = NaN) \<and>
     \<not> fgt (fabs NaN) 3"
proof (intro impI conjI)
  assume a: "wf_frame df \<and> getitem df column = Inr c \<and>
   (\<forall>x\<in>set (valid (cells (to_numeric L c))). \<forall>y\<in>set (valid (cells (to_numeric L c))). x = y)"
  let ?vs = "cells (to_numeric L c)"
  let ?res = "select df (map (is_anomaly (valid ?vs)) ?vs)"
  have d: "detect_anomalies L df column =
      \<lparr>returned = Inr ?res, frame_after = df,
       printed = [Line (''Anomalies detected in '' @ [CHR 0x27] @ column @ [CHR 0x27] @ '':''),
                  Shown ?res]\<rparr>"
    using detect_anomalies_select[of df column c L] a by (simp add: Let_def)
  have none: "\<forall>v\<in>set ?vs. \<not> is_anomaly (valid ?vs) v"
    using a is_anomaly_constant[of ?vs] by blast
  have p: "pick (map (is_anomaly (valid ?vs)) ?vs) ys = []" for ys :: "'a list"
    using pick_none[OF none] .
  have "index ?res = []" "rows ?res = []" "list_all (\<lambda>(n, c'). cells c' = []) (columns ?res)"
    by (simp_all add: select_def p rows_def list_all_iff case_prod_unfold)
  then show "\<exists>res. returned (detect_anomalies L df column) = Inr res \<and> index res = [] \<and>
        rows res = [] \<and> list_all (\<lambda>(n, c'). cells c' = []) (columns res)"
    using d by simp
  show "frame_after (detect_anomalies L df column) = df" using d by simp
  show "\<forall>z\<in>set (zscore (valid ?vs)). z = NaN" using a zscore_constant by blast
  show "\<not> fgt (fabs NaN) 3" by (simp add: fabs_def fgt_def)
qed

theorem constant_column_detection_witness:
  "(\<exists>res. returned (detect_anomalies example_pandas
       \<lparr>index = [0, 1, 2, 3],
        columns = [(''Cholesterol'', \<lparr>dtype = Object, cells = [Num 180, NA, Num 180, Str ''x'']\<rparr>)]\<rparr>
       ''Cholesterol'') = Inr res \<and> index res = [] \<and> rows res = []) \<and>
   (\<exists>res. returned (detect_anomalies example_pandas
       \<lparr>index = [0, 1],
        columns = [(''Cholesterol'', \<lparr>dtype = Object, cells = [NA, Str ''x'']\<rparr>)]\<rparr>
       ''Cholesterol'') = Inr res \<and> index res = [] \<and> rows res = []) \<and>
   zscore [180, 180] = [NaN, NaN]"
proof -
  let ?c = "\<lparr>dtype = Object, cells = [Num 180, NA, Num 180, Str ''x'']\<rparr>"
  let ?df = "\<lparr>index = [0, 1, 2, 3::nat], columns = [(''Cholesterol'', ?c)]\<rparr>"
  let ?c2 = "\<lparr>dtype = Object, cells = [NA, Str ''x'']\<rparr>"
  let ?df2 = "\<lparr>index = [0, 1::nat], columns = [(''Cholesterol'', ?c2)]\<rparr>"
  have w: "wf_frame ?df" "wf_frame ?df2" by (simp_all add: frame_eval)
  have g: "getitem ?df ''Cholesterol'' = Inr ?c" "getitem ?df2 ''Cholesterol'' = Inr ?c2"
    by (simp_all add: getitem_def)
  have v: "valid (cells (to_numeric example_pandas ?c)) = [180, 180]"
    "valid (cells (to_numeric example_pandas ?c2)) = []"
    by (simp_all add: to_numeric_def numeric_cell_def example_pandas_def)
  have z: "\<forall>z\<in>set (zscore [180, 180]). z = NaN"
    using constant_column_detection[of ?df "''Cholesterol''" ?c example_pandas] w g v by simp
  have "zscore [180, 180] = [NaN, NaN]"
    using z by (simp add: zscore_def)
  then show ?thesis
    using constant_column_detection[of ?df "''Cholesterol''" ?c example_pandas]
      constant_column_detection[of ?df2 "''Cholesterol''" ?c2 example_pandas] w g v
    by auto
qed



section \<open>Properties of the summarizer\<close>









end
